theory Spec2Isabelle
  imports Main "HOL-Library.Word"
begin

section \<open>The document tree\<close>

text \<open>
  The accessors of \<^verbatim>\<open>rapidjson_utils.hpp\<close> read a RapidJSON value. A value has one
  kind: null, boolean, number, string, array or object. A number is stored either as an
  integer (RapidJSON keeps the flags \<^verbatim>\<open>kIntFlag\<close>, \<^verbatim>\<open>kUintFlag\<close>, \<^verbatim>\<open>kInt64Flag\<close>,
  \<^verbatim>\<open>kUint64Flag\<close>, one for each width the integer fits) or as a double (\<^verbatim>\<open>kDoubleFlag\<close>
  alone). An integer is modelled by its mathematical value, a double and a float by their
  IEEE-754 bit patterns.
\<close>

type_synonym double = "64 word"
type_synonym float = "32 word"

datatype json =
    JNull
  | JBool bool
  | JInt int
  | JDouble double
  | JString string
  | JArray "json list"
  | JObject "(string \<times> json) list"

text \<open>
  The first parameter of every accessor is a \<^verbatim>\<open>rapidjson::Document\<close> or
  \<^verbatim>\<open>rapidjson::Value\<close> of object kind (RapidJSON's \<^verbatim>\<open>HasMember\<close> asserts it): it is
  modelled by the member list of that object, in document order.
\<close>

type_synonym members = "(string \<times> json) list"

text \<open>\<^verbatim>\<open>FindMember\<close> searches the members from the first on and stops at the first name
  that is equal to the key.\<close>

primrec FindMember :: "members \<Rightarrow> string \<Rightarrow> json option" where
  "FindMember [] name = None"
| "FindMember (m # ms) name = (if fst m = name then Some (snd m) else FindMember ms name)"

definition HasMember :: "members \<Rightarrow> string \<Rightarrow> bool" where
  "HasMember target_element member = (FindMember target_element member \<noteq> None)"

text \<open>\<^verbatim>\<open>target_element[member]\<close>: only read after \<open>HasMember\<close> has answered true.\<close>

definition member_value :: "members \<Rightarrow> string \<Rightarrow> json" where
  "member_value target_element member = the (FindMember target_element member)"

fun IsInt :: "json \<Rightarrow> bool" where
  "IsInt (JInt n) = (- (2 ^ 31) \<le> n \<and> n \<le> 2 ^ 31 - 1)"
| "IsInt _ = False"

fun IsUint :: "json \<Rightarrow> bool" where
  "IsUint (JInt n) = (0 \<le> n \<and> n \<le> 2 ^ 32 - 1)"
| "IsUint _ = False"

fun IsInt64 :: "json \<Rightarrow> bool" where
  "IsInt64 (JInt n) = (- (2 ^ 63) \<le> n \<and> n \<le> 2 ^ 63 - 1)"
| "IsInt64 _ = False"

fun IsUint64 :: "json \<Rightarrow> bool" where
  "IsUint64 (JInt n) = (0 \<le> n \<and> n \<le> 2 ^ 64 - 1)"
| "IsUint64 _ = False"

fun IsBool :: "json \<Rightarrow> bool" where
  "IsBool (JBool b) = True"
| "IsBool _ = False"

fun IsDouble :: "json \<Rightarrow> bool" where
  "IsDouble (JDouble d) = True"
| "IsDouble _ = False"

fun IsNumber :: "json \<Rightarrow> bool" where
  "IsNumber (JInt n) = True"
| "IsNumber (JDouble d) = True"
| "IsNumber _ = False"

fun IsString :: "json \<Rightarrow> bool" where
  "IsString (JString s) = True"
| "IsString _ = False"

fun IsArray :: "json \<Rightarrow> bool" where
  "IsArray (JArray xs) = True"
| "IsArray _ = False"

fun IsObject :: "json \<Rightarrow> bool" where
  "IsObject (JObject ms) = True"
| "IsObject _ = False"

text \<open>The getters are only called behind the matching test, as RapidJSON requires; the
  value of a getter on another kind is left unspecified.\<close>

fun GetInt :: "json \<Rightarrow> 32 word" where
  "GetInt (JInt n) = word_of_int n"

fun GetUint :: "json \<Rightarrow> 32 word" where
  "GetUint (JInt n) = word_of_int n"

fun GetInt64 :: "json \<Rightarrow> 64 word" where
  "GetInt64 (JInt n) = word_of_int n"

fun GetUint64 :: "json \<Rightarrow> 64 word" where
  "GetUint64 (JInt n) = word_of_int n"

fun GetBool :: "json \<Rightarrow> bool" where
  "GetBool (JBool b) = b"

fun GetDouble :: "json \<Rightarrow> double" where
  "GetDouble (JDouble d) = d"

text \<open>\<^verbatim>\<open>GetString\<close> returns a \<^verbatim>\<open>const char*\<close> to the text. Read as a C string (by
  \<^verbatim>\<open>std::string\<close>'s constructor, by \<^verbatim>\<open>strtol\<close>) the text ends at its first NUL.\<close>

definition c_str :: "string \<Rightarrow> string" where
  "c_str s = takeWhile (\<lambda>c. c \<noteq> CHR 0x00) s"

fun GetString :: "json \<Rightarrow> string" where
  "GetString (JString s) = c_str s"


section \<open>The template parameter \<^verbatim>\<open>DataType\<close>\<close>

text \<open>
  The types the \<^verbatim>\<open>if constexpr\<close> chains tell apart. \<open>T_signed w\<close> and \<open>T_unsigned w\<close>
  are the integral types of \<open>w\<close> bits that are none of \<^verbatim>\<open>int32_t\<close>, \<^verbatim>\<open>uint32_t\<close>,
  \<^verbatim>\<open>int64_t\<close>, \<^verbatim>\<open>uint64_t\<close>, \<^verbatim>\<open>bool\<close>, \<^verbatim>\<open>char\<close> (\<^verbatim>\<open>short\<close>, \<^verbatim>\<open>signed char\<close>,
  \<^verbatim>\<open>unsigned short\<close>, the 64-bit integer type that is not \<^verbatim>\<open>int64_t\<close>, ...).
  \<open>T_double\<close> stands for the floating-point types other than \<^verbatim>\<open>float\<close>. Any other type
  is rejected by the \<^verbatim>\<open>static_assert\<close> of the last branch when the template is
  instantiated, so it is no value of this datatype.
\<close>

datatype data_type =
    T_int32
  | T_uint32
  | T_int64
  | T_uint64
  | T_bool
  | T_float
  | T_double
  | T_char
  | T_const_char
  | T_char_ptr
  | T_const_char_ptr
  | T_string
  | T_const_string
  | T_signed nat
  | T_unsigned nat

fun is_floating_point :: "data_type \<Rightarrow> bool" where
  "is_floating_point T_float = True"
| "is_floating_point T_double = True"
| "is_floating_point _ = False"

fun is_integral :: "data_type \<Rightarrow> bool" where
  "is_integral T_int32 = True"
| "is_integral T_uint32 = True"
| "is_integral T_int64 = True"
| "is_integral T_uint64 = True"
| "is_integral T_bool = True"
| "is_integral T_char = True"
| "is_integral T_const_char = True"
| "is_integral (T_signed w) = True"
| "is_integral (T_unsigned w) = True"
| "is_integral _ = False"

text \<open>Whether \<^verbatim>\<open>char\<close> is signed is the platform's choice; the string branch comes
  before the branches that ask, so the choice is never read.\<close>

fun is_signed :: "data_type \<Rightarrow> bool" where
  "is_signed T_int32 = True"
| "is_signed T_int64 = True"
| "is_signed T_float = True"
| "is_signed T_double = True"
| "is_signed T_char = True"
| "is_signed T_const_char = True"
| "is_signed (T_signed w) = True"
| "is_signed _ = False"

fun is_unsigned :: "data_type \<Rightarrow> bool" where
  "is_unsigned T_uint32 = True"
| "is_unsigned T_uint64 = True"
| "is_unsigned T_bool = True"
| "is_unsigned (T_unsigned w) = True"
| "is_unsigned _ = False"


section \<open>The validators\<close>

definition IsValid :: "data_type \<Rightarrow> members \<Rightarrow> string \<Rightarrow> bool" where
  "IsValid DataType target_element member =
    (if \<not> HasMember target_element member then False
     else if DataType = T_int32 then IsInt (member_value target_element member)
     else if DataType = T_uint32 then IsUint (member_value target_element member)
     else if DataType = T_int64 then IsInt64 (member_value target_element member)
     else if DataType = T_uint64 then IsUint64 (member_value target_element member)
     else if DataType = T_bool then IsBool (member_value target_element member)
     else if is_floating_point DataType then IsDouble (member_value target_element member)
     else if DataType = T_char \<or> DataType = T_const_char
          \<or> DataType = T_char_ptr \<or> DataType = T_const_char_ptr
          \<or> DataType = T_string \<or> DataType = T_const_string
       then IsString (member_value target_element member)
     else if is_integral DataType \<and> is_signed DataType
       then IsInt64 (member_value target_element member)
     else if is_integral DataType \<and> is_unsigned DataType
       then IsUint64 (member_value target_element member)
     else False)"

definition IsValidArray :: "members \<Rightarrow> string \<Rightarrow> bool" where
  "IsValidArray target_element member =
    (HasMember target_element member \<and> IsArray (member_value target_element member))"

definition IsValidObject :: "members \<Rightarrow> string \<Rightarrow> bool" where
  "IsValidObject target_element member =
    (HasMember target_element member \<and> IsObject (member_value target_element member))"


section \<open>Values of \<^verbatim>\<open>DataType\<close>\<close>

text \<open>
  \<^verbatim>\<open>Extract\<close> and \<^verbatim>\<open>ExtractFromNumericOrString\<close> take and return a value of
  \<^verbatim>\<open>DataType\<close>; the type of the default is the template parameter. \<open>D_string\<close> is the
  value of the string types with which \<^verbatim>\<open>Extract\<close> compiles (\<^verbatim>\<open>const char*\<close>,
  \<^verbatim>\<open>std::string\<close>), read as a C string. \<open>D_signed w n\<close> and \<open>D_unsigned w n\<close> are
  the values \<open>n\<close> of the other integral types of \<open>w\<close> bits.
\<close>

datatype dval =
    D_int32 "32 word"
  | D_uint32 "32 word"
  | D_int64 "64 word"
  | D_uint64 "64 word"
  | D_bool bool
  | D_float float
  | D_double double
  | D_string string
  | D_signed nat int
  | D_unsigned nat int

fun data_type_of :: "dval \<Rightarrow> data_type" where
  "data_type_of (D_int32 x) = T_int32"
| "data_type_of (D_uint32 x) = T_uint32"
| "data_type_of (D_int64 x) = T_int64"
| "data_type_of (D_uint64 x) = T_uint64"
| "data_type_of (D_bool b) = T_bool"
| "data_type_of (D_float f) = T_float"
| "data_type_of (D_double d) = T_double"
| "data_type_of (D_string s) = T_string"
| "data_type_of (D_signed w n) = T_signed w"
| "data_type_of (D_unsigned w n) = T_unsigned w"

text \<open>The implicit conversion of the \<^verbatim>\<open>return\<close> statement from a 64-bit integer to an
  integral type of \<open>w\<close> bits keeps the low \<open>w\<close> bits.\<close>

definition to_signed :: "nat \<Rightarrow> 64 word \<Rightarrow> int" where
  "to_signed w x = signed_take_bit (w - 1) (sint x)"

definition to_unsigned :: "nat \<Rightarrow> 64 word \<Rightarrow> int" where
  "to_unsigned w x = take_bit w (uint x)"


section \<open>The build and the platform\<close>

text \<open>
  What the header takes from its environment: whether \<^verbatim>\<open>assert\<close> is compiled out
  (\<^verbatim>\<open>NDEBUG\<close>), the width of \<^verbatim>\<open>long\<close> (32 bits on Windows, 64 on the LP64 platforms),
  whether the C library's \<^verbatim>\<open>strtol\<close> family stores \<^verbatim>\<open>EINVAL\<close> in \<^verbatim>\<open>errno\<close> when it
  finds no digits (POSIX allows it, the BSD libraries do it, glibc and the Microsoft
  library do not), the conversion \<^verbatim>\<open>static_cast<float>\<close> of a double, and the
  floating-point parsers \<^verbatim>\<open>strtof\<close> and \<^verbatim>\<open>strtod\<close>, which return their value and the
  error code they store in \<^verbatim>\<open>errno\<close>, if any.
\<close>

record platform =
  NDEBUG :: bool
  long_bits :: nat
  EINVAL_without_digits :: bool
  static_cast_float :: "double \<Rightarrow> float"
  strtof :: "string \<Rightarrow> float \<times> int option"
  strtod :: "string \<Rightarrow> double \<times> int option"

datatype failure = AssertionFailed

definition EINVAL :: int where
  "EINVAL = 22"

definition ERANGE :: int where
  "ERANGE = 34"


section \<open>The typed extractor\<close>

definition Extract :: "platform \<Rightarrow> members \<Rightarrow> string \<Rightarrow> dval \<Rightarrow> failure + dval" where
  "Extract p target_element member default_value =
    (if \<not> HasMember target_element member then Inr default_value
     else case default_value of
       D_int32 _ \<Rightarrow>
         if IsInt (member_value target_element member)
           then Inr (D_int32 (GetInt (member_value target_element member)))
         else if \<not> NDEBUG p \<and> IsNumber (member_value target_element member)
           then Inl AssertionFailed
         else Inr default_value
     | D_uint32 _ \<Rightarrow>
         if IsUint (member_value target_element member)
           then Inr (D_uint32 (GetUint (member_value target_element member)))
         else Inr default_value
     | D_int64 _ \<Rightarrow>
         if IsInt64 (member_value target_element member)
           then Inr (D_int64 (GetInt64 (member_value target_element member)))
         else Inr default_value
     | D_uint64 _ \<Rightarrow>
         if IsUint64 (member_value target_element member)
           then Inr (D_uint64 (GetUint64 (member_value target_element member)))
         else Inr default_value
     | D_bool _ \<Rightarrow>
         if IsBool (member_value target_element member)
           then Inr (D_bool (GetBool (member_value target_element member)))
         else Inr default_value
     | D_float _ \<Rightarrow>
         if IsDouble (member_value target_element member)
           then Inr (D_float (static_cast_float p (GetDouble (member_value target_element member))))
         else Inr default_value
     | D_double _ \<Rightarrow>
         if IsDouble (member_value target_element member)
           then Inr (D_double (GetDouble (member_value target_element member)))
         else Inr default_value
     | D_string _ \<Rightarrow>
         if IsString (member_value target_element member)
           then Inr (D_string (GetString (member_value target_element member)))
         else Inr default_value
     | D_signed w _ \<Rightarrow>
         if IsInt64 (member_value target_element member)
           then Inr (D_signed w (to_signed w (GetInt64 (member_value target_element member))))
         else Inr default_value
     | D_unsigned w _ \<Rightarrow>
         if IsUint64 (member_value target_element member)
           then Inr (D_unsigned w (to_unsigned w (GetUint64 (member_value target_element member))))
         else Inr default_value)"


section \<open>The C library's integer parsers\<close>

text \<open>
  \<^verbatim>\<open>strtol\<close>, \<^verbatim>\<open>strtoul\<close>, \<^verbatim>\<open>strtoll\<close> and \<^verbatim>\<open>strtoull\<close> in base 10, as the C
  standard describes them: white space is skipped, one sign is read, then the longest
  run of decimal digits. Without a digit the result is 0. A value outside the result
  type is replaced by the nearest bound of the type and \<^verbatim>\<open>errno\<close> becomes \<^verbatim>\<open>ERANGE\<close>;
  otherwise \<^verbatim>\<open>errno\<close> is left as it was. The unsigned parsers negate a value with a
  minus sign in the result type. Each parser takes \<^verbatim>\<open>errno\<close> and returns it with its
  result. The end pointer is \<^verbatim>\<open>nullptr\<close> at every call of the header and is left out.
\<close>

definition isspace :: "char \<Rightarrow> bool" where
  "isspace c = (c = CHR '' '' \<or> c = CHR 0x09 \<or> c = CHR 0x0A \<or> c = CHR 0x0B
                \<or> c = CHR 0x0C \<or> c = CHR 0x0D)"

definition isdigit :: "char \<Rightarrow> bool" where
  "isdigit c = (48 \<le> (of_char c :: int) \<and> (of_char c :: int) \<le> 57)"

definition digits_value :: "string \<Rightarrow> int" where
  "digits_value ds = foldl (\<lambda>acc c. 10 * acc + (of_char c - 48)) 0 ds"

fun read_sign :: "string \<Rightarrow> bool \<times> string" where
  "read_sign [] = (False, [])"
| "read_sign (c # cs) =
     (if c = CHR ''-'' then (True, cs) else if c = CHR ''+'' then (False, cs) else (False, c # cs))"

definition scan_integer :: "string \<Rightarrow> bool \<times> string" where
  "scan_integer s =
    (case read_sign (dropWhile isspace s) of (negative, rest) \<Rightarrow> (negative, takeWhile isdigit rest))"

definition strto_signed :: "nat \<Rightarrow> bool \<Rightarrow> string \<Rightarrow> int \<Rightarrow> int \<times> int" where
  "strto_signed bits einval s errno =
    (case scan_integer s of (negative, ds) \<Rightarrow>
       if ds = [] then (0, if einval then EINVAL else errno)
       else let v = (if negative then - digits_value ds else digits_value ds)
         in if v > 2 ^ (bits - 1) - 1 then (2 ^ (bits - 1) - 1, ERANGE)
            else if v < - (2 ^ (bits - 1)) then (- (2 ^ (bits - 1)), ERANGE)
            else (v, errno))"

definition strto_unsigned :: "nat \<Rightarrow> bool \<Rightarrow> string \<Rightarrow> int \<Rightarrow> int \<times> int" where
  "strto_unsigned bits einval s errno =
    (case scan_integer s of (negative, ds) \<Rightarrow>
       if ds = [] then (0, if einval then EINVAL else errno)
       else let m = digits_value ds
         in if m > 2 ^ bits - 1 then (2 ^ bits - 1, ERANGE)
            else ((if negative then (- m) mod 2 ^ bits else m), errno))"

definition strtol :: "platform \<Rightarrow> string \<Rightarrow> int \<Rightarrow> int \<times> int" where
  "strtol p = strto_signed (long_bits p) (EINVAL_without_digits p)"

definition strtoul :: "platform \<Rightarrow> string \<Rightarrow> int \<Rightarrow> int \<times> int" where
  "strtoul p = strto_unsigned (long_bits p) (EINVAL_without_digits p)"

definition strtoll :: "platform \<Rightarrow> string \<Rightarrow> int \<Rightarrow> int \<times> int" where
  "strtoll p = strto_signed 64 (EINVAL_without_digits p)"

definition strtoull :: "platform \<Rightarrow> string \<Rightarrow> int \<Rightarrow> int \<times> int" where
  "strtoull p = strto_unsigned 64 (EINVAL_without_digits p)"

text \<open>The floating-point parsers of the platform, with \<^verbatim>\<open>errno\<close> threaded through.\<close>

definition with_errno :: "'a \<times> int option \<Rightarrow> int \<Rightarrow> 'a \<times> int" where
  "with_errno r errno = (case snd r of None \<Rightarrow> (fst r, errno) | Some e \<Rightarrow> (fst r, e))"


section \<open>The coercing extractor\<close>

text \<open>
  Each branch of the text case ends with the same three statements:
  \<^verbatim>\<open>assert(errno != ERANGE); if (errno != 0) return default_value; return value;\<close>.
  They read \<^verbatim>\<open>errno\<close> as the parser left it; the header never clears it.
\<close>

definition checked_return :: "platform \<Rightarrow> dval \<Rightarrow> dval \<Rightarrow> int \<Rightarrow> (failure + dval) \<times> int" where
  "checked_return p default_value v errno =
    (if \<not> NDEBUG p \<and> errno = ERANGE then (Inl AssertionFailed, errno)
     else if errno \<noteq> 0 then (Inr default_value, errno)
     else (Inr v, errno))"

definition ExtractFromNumericOrString ::
    "platform \<Rightarrow> members \<Rightarrow> string \<Rightarrow> dval \<Rightarrow> int \<Rightarrow> (failure + dval) \<times> int" where
  "ExtractFromNumericOrString p target_element member default_value errno =
    (if \<not> HasMember target_element member then (Inr default_value, errno)
     else if IsNumber (member_value target_element member)
       then (Extract p target_element member default_value, errno)
     else if IsString (member_value target_element member) then
       (case default_value of
          D_int32 _ \<Rightarrow>
            (case strtol p (GetString (member_value target_element member)) errno of
               (r, errno') \<Rightarrow> checked_return p default_value (D_int32 (word_of_int r)) errno')
        | D_uint32 _ \<Rightarrow>
            (case strtoul p (GetString (member_value target_element member)) errno of
               (r, errno') \<Rightarrow> checked_return p default_value (D_uint32 (word_of_int r)) errno')
        | D_int64 _ \<Rightarrow>
            (case strtoll p (GetString (member_value target_element member)) errno of
               (r, errno') \<Rightarrow> checked_return p default_value (D_int64 (word_of_int r)) errno')
        | D_uint64 _ \<Rightarrow>
            (case strtoull p (GetString (member_value target_element member)) errno of
               (r, errno') \<Rightarrow> checked_return p default_value (D_uint64 (word_of_int r)) errno')
        | D_float _ \<Rightarrow>
            (case with_errno (strtof p (GetString (member_value target_element member))) errno of
               (r, errno') \<Rightarrow> checked_return p default_value (D_float r) errno')
        | D_double _ \<Rightarrow>
            (case with_errno (strtod p (GetString (member_value target_element member))) errno of
               (r, errno') \<Rightarrow> checked_return p default_value (D_double r) errno')
        | _ \<Rightarrow> (Inr default_value, errno))
     else (Inr default_value, errno))"


section \<open>CastKeepingBits\<close>












section \<open>The policy table of the specification\<close>

text \<open>
  The table of the validator's contract, row by row, in the specification's words: an
  exact-width integer tag requires an integer representable in that width, the boolean
  tag a boolean, a floating-point tag a floating-point-representable numeric, a string
  tag a string, and the generic integral tags alias to the 64-bit checks.
\<close>

definition representable_signed :: "nat \<Rightarrow> int \<Rightarrow> bool" where
  "representable_signed w n = (- (2 ^ (w - 1)) \<le> n \<and> n < 2 ^ (w - 1))"

definition representable_unsigned :: "nat \<Rightarrow> int \<Rightarrow> bool" where
  "representable_unsigned w n = (0 \<le> n \<and> n < 2 ^ w)"

text \<open>An integer is a value of the 64-bit floating-point format when, with its factors
  of two taken out, it fits the 53 bits of the significand.\<close>

fun odd_part :: "nat \<Rightarrow> nat" where
  "odd_part n = (if n = 0 \<or> odd n then n else odd_part (n div 2))"

definition floating_point_representable :: "int \<Rightarrow> bool" where
  "floating_point_representable n = (odd_part (nat \<bar>n\<bar>) < 2 ^ 53)"

fun spec_policy :: "data_type \<Rightarrow> json \<Rightarrow> bool" where
  "spec_policy T_int32 v = (case v of JInt n \<Rightarrow> representable_signed 32 n | _ \<Rightarrow> False)"
| "spec_policy T_uint32 v = (case v of JInt n \<Rightarrow> representable_unsigned 32 n | _ \<Rightarrow> False)"
| "spec_policy T_int64 v = (case v of JInt n \<Rightarrow> representable_signed 64 n | _ \<Rightarrow> False)"
| "spec_policy T_uint64 v = (case v of JInt n \<Rightarrow> representable_unsigned 64 n | _ \<Rightarrow> False)"
| "spec_policy T_bool v = (case v of JBool b \<Rightarrow> True | _ \<Rightarrow> False)"
| "spec_policy T_float v =
     (case v of JInt n \<Rightarrow> floating_point_representable n | JDouble d \<Rightarrow> True | _ \<Rightarrow> False)"
| "spec_policy T_double v =
     (case v of JInt n \<Rightarrow> floating_point_representable n | JDouble d \<Rightarrow> True | _ \<Rightarrow> False)"
| "spec_policy (T_signed w) v = (case v of JInt n \<Rightarrow> representable_signed 64 n | _ \<Rightarrow> False)"
| "spec_policy (T_unsigned w) v = (case v of JInt n \<Rightarrow> representable_unsigned 64 n | _ \<Rightarrow> False)"
| "spec_policy T v = (case v of JString s \<Rightarrow> True | _ \<Rightarrow> False)"

text \<open>The number an integral value of \<^verbatim>\<open>DataType\<close> stands for.\<close>

fun integer_value :: "dval \<Rightarrow> int option" where
  "integer_value (D_int32 x) = Some (sint x)"
| "integer_value (D_uint32 x) = Some (uint x)"
| "integer_value (D_int64 x) = Some (sint x)"
| "integer_value (D_uint64 x) = Some (uint x)"
| "integer_value (D_signed w n) = Some n"
| "integer_value (D_unsigned w n) = Some n"
| "integer_value _ = None"


section \<open>Example platforms\<close>

text \<open>
  Four builds on which the functions are evaluated below: a release build where
  \<^verbatim>\<open>long\<close> has 64 bits, the same with a C library that stores \<^verbatim>\<open>EINVAL\<close> for a text
  without digits, a release build where \<^verbatim>\<open>long\<close> has 32 bits, and a build of the
  latter with assertions. Their floating-point conversion keeps the sign and nothing else, and
  their floating-point parsers return zero without an error, which is what the C standard
  asks of them on a text they cannot convert; they stand in for the real ones only
  where a statement is evaluated on an example.
\<close>

definition release_lp64 :: platform where
  "release_lp64 =
    \<lparr>NDEBUG = True, long_bits = 64, EINVAL_without_digits = False,
     static_cast_float = (\<lambda>d. push_bit 31 (ucast (drop_bit 63 d))),
     strtof = (\<lambda>s. (0, None)), strtod = (\<lambda>s. (0, None))\<rparr>"

definition release_lp64_bsd :: platform where
  "release_lp64_bsd = release_lp64\<lparr>EINVAL_without_digits := True\<rparr>"

definition release_llp64 :: platform where
  "release_llp64 = release_lp64\<lparr>long_bits := 32\<rparr>"

definition debug_llp64 :: platform where
  "debug_llp64 = release_llp64\<lparr>NDEBUG := False\<rparr>"


section \<open>Properties of the validators\<close>

lemma IsValid_absent: "FindMember target_element member = None \<Longrightarrow> \<not> IsValid T target_element member"
  by (simp add: IsValid_def HasMember_def)


lemma IsValid_present:
  "FindMember target_element member = Some v \<Longrightarrow> \<not> is_floating_point T \<Longrightarrow>
   IsValid T target_element member = spec_policy T v"
  by (cases T; cases v)
     (auto simp add: IsValid_def HasMember_def member_value_def
        representable_signed_def representable_unsigned_def)

lemma IsValid_present_floating:
  "FindMember target_element member = Some v \<Longrightarrow> is_floating_point T \<Longrightarrow>
   IsValid T target_element member = IsDouble v"
  by (cases T) (simp_all add: IsValid_def HasMember_def member_value_def)

text \<open>
  C1, as the code has it. For every container, key and type tag, \<open>IsValid\<close> answers true
  exactly when the key is present and the stored value meets the tag's row: an integer
  representable in signed or unsigned 32 or 64 bits for the exact-width tags, a boolean
  for the boolean tag, a string for the string tags, the 64-bit checks for the generic
  integral tags, and for the floating-point tags a number stored as a double. It
  answers false in every other case, an absent key included.
\<close>

theorem IsValid_policy:
  "IsValid T target_element member =
     (case FindMember target_element member of
        None \<Rightarrow> False
      | Some v \<Rightarrow> if is_floating_point T then IsDouble v else spec_policy T v)"
proof (cases "FindMember target_element member")
  case None
  then show ?thesis by (simp add: IsValid_absent)
next
  case (Some v)
  then show ?thesis by (simp add: IsValid_present IsValid_present_floating)
qed

theorem IsValid_policy_witness:
  "IsValid T_int32 [(''a'', JInt 5), (''b'', JString ''10''), (''x'', JDouble 7)] ''a'' \<and>
   \<not> IsValid T_int32 [(''a'', JInt 5), (''b'', JString ''10''), (''x'', JDouble 7)] ''b'' \<and>
   \<not> IsValid T_int32 [(''a'', JInt 5), (''b'', JString ''10''), (''x'', JDouble 7)] ''missing'' \<and>
   IsValid T_double [(''a'', JInt 5), (''b'', JString ''10''), (''x'', JDouble 7)] ''x''"
  using IsValid_policy [of T_int32 "[(''a'', JInt 5), (''b'', JString ''10''), (''x'', JDouble 7)]" "''a''"]
    IsValid_policy [of T_int32 "[(''a'', JInt 5), (''b'', JString ''10''), (''x'', JDouble 7)]" "''b''"]
    IsValid_policy [of T_int32 "[(''a'', JInt 5), (''b'', JString ''10''), (''x'', JDouble 7)]" "''missing''"]
    IsValid_policy [of T_double "[(''a'', JInt 5), (''b'', JString ''10''), (''x'', JDouble 7)]" "''x''"]
  by (simp add: representable_signed_def)

text \<open>
  C1, as the specification words it, fails on the floating-point tags: the stored
  integer 3 meets the table's floating row, a floating-point-representable numeric, and
  \<open>IsValid\<close> with the 32-bit float tag answers false.
\<close>

theorem IsValid_policy_counterexample:
  "IsValid T_float [(''n'', JInt 3)] ''n'' \<noteq>
     (case FindMember [(''n'', JInt 3)] ''n'' of None \<Rightarrow> False | Some v \<Rightarrow> spec_policy T_float v)"
  by (simp add: IsValid_def HasMember_def member_value_def floating_point_representable_def)

text \<open>
  C8, as the code has it. For every floating-point tag, \<open>IsValid\<close> answers true exactly
  when the key is present and the stored value is a number of floating-point kind, that
  is, stored as a double; the one test serves every floating tag. A number stored as an
  integer is refused, also when a floating-point value represents it exactly.
\<close>

theorem IsValid_floating:
  "is_floating_point T \<Longrightarrow>
   IsValid T target_element member = (\<exists>d. FindMember target_element member = Some (JDouble d))"
proof (cases "FindMember target_element member")
  case None
  then show ?thesis by (simp add: IsValid_absent)
next
  case (Some v)
  assume "is_floating_point T"
  with Some show ?thesis
    by (cases T; cases v) (simp_all add: IsValid_def HasMember_def member_value_def)
qed

theorem IsValid_floating_witness:
  "is_floating_point T_float \<and> IsValid T_float [(''x'', JDouble 7)] ''x'' \<and>
   \<not> IsValid T_float [(''x'', JInt 7)] ''x''"
  using IsValid_floating [of T_float "[(''x'', JDouble 7)]" "''x''"]
    IsValid_floating [of T_float "[(''x'', JInt 7)]" "''x''"]
  by simp

text \<open>
  C8, as the specification words it, fails: the integer 5 is a numeric that the
  floating-point format represents, the key is present, and \<open>IsValid\<close> with the
  floating tag answers false.
\<close>

theorem IsValid_floating_counterexample:
  "is_floating_point T_double \<and> HasMember [(''a'', JInt 5)] ''a'' \<and>
   spec_policy T_double (member_value [(''a'', JInt 5)] ''a'') \<and>
   \<not> IsValid T_double [(''a'', JInt 5)] ''a''"
  by (simp add: HasMember_def member_value_def IsValid_def floating_point_representable_def)

text \<open>
  C9. \<open>IsValidArray\<close> answers true exactly when the key is present and the stored value
  is an array, \<open>IsValidObject\<close> exactly when it is present and an object; a present
  scalar gets false from both, and no type tag is involved.
\<close>

theorem IsValidArray_IsValidObject:
  "IsValidArray target_element member =
     (\<exists>xs. FindMember target_element member = Some (JArray xs)) \<and>
   IsValidObject target_element member =
     (\<exists>ms. FindMember target_element member = Some (JObject ms))"
proof (cases "FindMember target_element member")
  case None
  then show ?thesis by (simp add: IsValidArray_def IsValidObject_def HasMember_def)
next
  case (Some v)
  then show ?thesis
    by (cases v) (simp_all add: IsValidArray_def IsValidObject_def HasMember_def member_value_def)
qed


section \<open>Properties of the typed extractor\<close>

text \<open>
  C2. For every type tag and default, \<open>Extract\<close> on a container without the key returns
  the default, on every build and platform.
\<close>

theorem Extract_absent:
  "\<not> HasMember target_element member \<Longrightarrow>
   Extract p target_element member default_value = Inr default_value"
  by (simp add: Extract_def)

theorem Extract_absent_witness:
  "\<not> HasMember [(''a'', JInt 5)] ''missing'' \<and>
   Extract debug_llp64 [(''a'', JInt 5)] ''missing'' (D_int32 7) = Inr (D_int32 7)"
  using Extract_absent [of "[(''a'', JInt 5)]" "''missing''" debug_llp64 "D_int32 7"]
  by (simp add: HasMember_def)

lemma sint32_exact:
  "- (2 ^ 31) \<le> n \<Longrightarrow> n \<le> 2 ^ 31 - 1 \<Longrightarrow> sint (word_of_int n :: 32 word) = n"
  by (simp add: sint_sbintrunc' signed_take_bit_int_eq_self)

lemma sint64_exact:
  "- (2 ^ 63) \<le> n \<Longrightarrow> n \<le> 2 ^ 63 - 1 \<Longrightarrow> sint (word_of_int n :: 64 word) = n"
  by (simp add: sint_sbintrunc' signed_take_bit_int_eq_self)

lemma uint32_exact:
  "0 \<le> n \<Longrightarrow> n \<le> 2 ^ 32 - 1 \<Longrightarrow> uint (word_of_int n :: 32 word) = n"
  by (simp add: uint_word_of_int)

lemma uint64_exact:
  "0 \<le> n \<Longrightarrow> n \<le> 2 ^ 64 - 1 \<Longrightarrow> uint (word_of_int n :: 64 word) = n"
  by (simp add: uint_word_of_int)

lemma Extract_matching:
  assumes "FindMember target_element member = Some v"
    and "IsValid (data_type_of default_value) target_element member"
  shows "\<exists>r. Extract p target_element member default_value = Inr r \<and>
           data_type_of r = data_type_of default_value \<and>
           (case v of
              JInt n \<Rightarrow> integer_value r =
                Some (case default_value of
                        D_signed w _ \<Rightarrow> signed_take_bit (w - 1) n
                      | D_unsigned w _ \<Rightarrow> take_bit w n
                      | _ \<Rightarrow> n)
            | JBool b \<Rightarrow> r = D_bool b
            | JDouble x \<Rightarrow> r = (case default_value of
                                   D_float _ \<Rightarrow> D_float (static_cast_float p x)
                                 | _ \<Rightarrow> D_double x)
            | JString s \<Rightarrow> r = D_string (c_str s)
            | _ \<Rightarrow> False)"
  using assms
  by (cases default_value; cases v)
     (simp_all add: Extract_def IsValid_def HasMember_def member_value_def
        sint32_exact sint64_exact uint32_exact uint64_exact to_signed_def to_unsigned_def)

lemma Extract_mismatch:
  assumes "FindMember target_element member = Some v"
    and "\<not> IsValid (data_type_of default_value) target_element member"
  shows "Extract p target_element member default_value =
           (if \<not> NDEBUG p \<and> data_type_of default_value = T_int32 \<and> IsNumber v
            then Inl AssertionFailed else Inr default_value)"
  using assms
  by (cases default_value)
     (simp_all add: Extract_def IsValid_def HasMember_def member_value_def)

text \<open>
  C3, as the code has it. With the key present: if the stored value passes the tag's
  test, \<open>Extract\<close> returns a value of the tag's type read from it. For the exact-width
  integer tags that value is the stored integer; for a generic integral tag of \<open>w\<close> bits
  it is the stored integer reduced to its low \<open>w\<close> bits (the stored integer itself when
  it fits); for the boolean tag the stored boolean; for the 32-bit float tag the stored
  double narrowed to float; for the other floating tag the stored double; for a string
  tag the stored text up to its first NUL character (the whole text when it has none).
  If the stored value fails the test, \<open>Extract\<close> returns the default, except that a
  build with assertions stops at the assertion when the tag is the signed 32-bit one and
  the stored value is a number.
\<close>

theorem Extract_present:
  assumes "FindMember target_element member = Some v"
  shows "if IsValid (data_type_of default_value) target_element member
         then \<exists>r. Extract p target_element member default_value = Inr r \<and>
                data_type_of r = data_type_of default_value \<and>
                (case v of
                   JInt n \<Rightarrow> integer_value r =
                     Some (case default_value of
                             D_signed w _ \<Rightarrow> signed_take_bit (w - 1) n
                           | D_unsigned w _ \<Rightarrow> take_bit w n
                           | _ \<Rightarrow> n)
                 | JBool b \<Rightarrow> r = D_bool b
                 | JDouble x \<Rightarrow> r = (case default_value of
                                        D_float _ \<Rightarrow> D_float (static_cast_float p x)
                                      | _ \<Rightarrow> D_double x)
                 | JString s \<Rightarrow> r = D_string (c_str s)
                 | _ \<Rightarrow> False)
         else Extract p target_element member default_value =
                (if \<not> NDEBUG p \<and> data_type_of default_value = T_int32 \<and> IsNumber v
                 then Inl AssertionFailed else Inr default_value)"
proof (cases "IsValid (data_type_of default_value) target_element member")
  case True
  with assms show ?thesis
    using Extract_matching [of target_element member v default_value p] by simp
next
  case False
  with assms show ?thesis
    using Extract_mismatch [of target_element member v default_value p] by simp
qed

theorem Extract_present_witness:
  "FindMember [(''a'', JInt 5), (''d'', JBool True)] ''a'' = Some (JInt 5) \<and>
   IsValid T_int32 [(''a'', JInt 5), (''d'', JBool True)] ''a'' \<and>
   Extract release_lp64 [(''a'', JInt 5), (''d'', JBool True)] ''a'' (D_int32 0) = Inr (D_int32 5) \<and>
   FindMember [(''a'', JInt 5), (''d'', JBool True)] ''d'' = Some (JBool True) \<and>
   \<not> IsValid T_int32 [(''a'', JInt 5), (''d'', JBool True)] ''d'' \<and>
   Extract release_lp64 [(''a'', JInt 5), (''d'', JBool True)] ''d'' (D_int32 7) = Inr (D_int32 7)"
  using Extract_present [of "[(''a'', JInt 5), (''d'', JBool True)]" "''a''" "JInt 5" "D_int32 0" release_lp64]
    Extract_present [of "[(''a'', JInt 5), (''d'', JBool True)]" "''d''" "JBool True" "D_int32 7" release_lp64]
  by (simp add: IsValid_def HasMember_def member_value_def Extract_def)

text \<open>
  C3, as the specification words it, fails at three inputs. A 16-bit signed tag meets
  its policy on the stored integer 70000 and \<open>Extract\<close> returns 4464. A string tag meets
  its policy on a text with a NUL inside and \<open>Extract\<close> returns the part before it. The
  signed 32-bit tag does not meet its policy on a stored double and a build with
  assertions stops instead of returning the default.
\<close>

theorem Extract_present_counterexample:
  "IsValid (T_signed 16) [(''a'', JInt 70000)] ''a'' \<and>
   Extract release_lp64 [(''a'', JInt 70000)] ''a'' (D_signed 16 0) = Inr (D_signed 16 4464) \<and>
   integer_value (D_signed 16 4464) \<noteq> Some 70000 \<and>
   IsValid T_string [(''s'', JString [CHR ''a'', CHR 0x00, CHR ''b''])] ''s'' \<and>
   Extract release_lp64 [(''s'', JString [CHR ''a'', CHR 0x00, CHR ''b''])] ''s'' (D_string [])
     = Inr (D_string ''a'') \<and>
   \<not> IsValid T_int32 [(''a'', JDouble 0)] ''a'' \<and>
   Extract debug_llp64 [(''a'', JDouble 0)] ''a'' (D_int32 7) = Inl AssertionFailed"
  by (simp add: IsValid_def HasMember_def member_value_def Extract_def to_signed_def c_str_def
      debug_llp64_def release_llp64_def release_lp64_def)


section \<open>Properties of the coercing extractor\<close>

text \<open>
  C7. With the key present and a stored number, \<open>ExtractFromNumericOrString\<close> returns
  what \<open>Extract\<close> returns on the same arguments, for every tag, and leaves \<^verbatim>\<open>errno\<close>
  alone; with a stored value that is neither a number nor text it returns the default.
\<close>

theorem ExtractFromNumericOrString_delegates:
  "FindMember target_element member = Some v \<Longrightarrow>
   (IsNumber v \<longrightarrow>
      ExtractFromNumericOrString p target_element member default_value errno =
        (Extract p target_element member default_value, errno)) \<and>
   (\<not> IsNumber v \<and> \<not> IsString v \<longrightarrow>
      ExtractFromNumericOrString p target_element member default_value errno =
        (Inr default_value, errno))"
  by (simp add: ExtractFromNumericOrString_def HasMember_def member_value_def)

theorem ExtractFromNumericOrString_delegates_witness:
  "FindMember [(''a'', JInt 5), (''d'', JBool True)] ''a'' = Some (JInt 5) \<and> IsNumber (JInt 5) \<and>
   ExtractFromNumericOrString release_llp64 [(''a'', JInt 5), (''d'', JBool True)] ''a'' (D_int32 0) 0
     = (Inr (D_int32 5), 0) \<and>
   FindMember [(''a'', JInt 5), (''d'', JBool True)] ''d'' = Some (JBool True) \<and>
   \<not> IsNumber (JBool True) \<and> \<not> IsString (JBool True) \<and>
   ExtractFromNumericOrString release_llp64 [(''a'', JInt 5), (''d'', JBool True)] ''d'' (D_int32 9) 0
     = (Inr (D_int32 9), 0)"
  using ExtractFromNumericOrString_delegates
      [of "[(''a'', JInt 5), (''d'', JBool True)]" "''a''" "JInt 5" release_llp64 "D_int32 0" 0]
    ExtractFromNumericOrString_delegates
      [of "[(''a'', JInt 5), (''d'', JBool True)]" "''d''" "JBool True" release_llp64 "D_int32 9" 0]
  by (simp add: Extract_def HasMember_def member_value_def)


lemmas parser_defs =
  strtol_def strtoul_def strtoll_def strtoull_def strto_signed_def strto_unsigned_def
  scan_integer_def isspace_def isdigit_def digits_value_def c_str_def

lemmas example_defs = release_lp64_def release_lp64_bsd_def release_llp64_def debug_llp64_def

text \<open>
  C5. With the signed 32-bit tag and \<^verbatim>\<open>errno\<close> clear, the text \<open>42\<close> gives 42. On the
  text \<open>99999999999999\<close> the result depends on the width of \<^verbatim>\<open>long\<close>: where it has 64
  bits \<^verbatim>\<open>strtol\<close> reports no range error, the value is cut to its low 32 bits and
  276447231 is returned in place of the default; where it has 32 bits the release build
  returns the default and leaves \<^verbatim>\<open>ERANGE\<close> in \<^verbatim>\<open>errno\<close>.
\<close>

theorem ExtractFromNumericOrString_int32_text:
  "ExtractFromNumericOrString release_lp64 [(''k'', JString ''42'')] ''k'' (D_int32 0) 0
     = (Inr (D_int32 42), 0) \<and>
   ExtractFromNumericOrString release_lp64 [(''k'', JString ''99999999999999'')] ''k'' (D_int32 0) 0
     = (Inr (D_int32 276447231), 0) \<and>
   ExtractFromNumericOrString release_llp64 [(''k'', JString ''99999999999999'')] ''k'' (D_int32 0) 0
     = (Inr (D_int32 0), ERANGE)"
  by (simp add: ExtractFromNumericOrString_def HasMember_def member_value_def checked_return_def
      parser_defs example_defs ERANGE_def)

text \<open>
  C4. On the text \<open>abc\<close>, in which no digit can be parsed, with the signed 32-bit tag,
  the default \<open>-1\<close> and \<^verbatim>\<open>errno\<close> clear, the call returns 0 and not the default where
  the C library leaves \<^verbatim>\<open>errno\<close> alone on such a text, whatever the width of
  \<^verbatim>\<open>long\<close>; it returns the default only where the library stores \<^verbatim>\<open>EINVAL\<close>.
\<close>

theorem ExtractFromNumericOrString_no_digits_text:
  "ExtractFromNumericOrString release_lp64 [(''c'', JString ''abc'')] ''c'' (D_int32 (- 1)) 0
     = (Inr (D_int32 0), 0) \<and>
   ExtractFromNumericOrString release_llp64 [(''c'', JString ''abc'')] ''c'' (D_int32 (- 1)) 0
     = (Inr (D_int32 0), 0) \<and>
   ExtractFromNumericOrString release_lp64_bsd [(''c'', JString ''abc'')] ''c'' (D_int32 (- 1)) 0
     = (Inr (D_int32 (- 1)), EINVAL)"
  by (simp add: ExtractFromNumericOrString_def HasMember_def member_value_def checked_return_def
      parser_defs example_defs ERANGE_def EINVAL_def)

text \<open>
  C6. The header never clears \<^verbatim>\<open>errno\<close> before it parses. A call on a text beyond the
  range of \<^verbatim>\<open>long\<close> leaves \<^verbatim>\<open>ERANGE\<close> in \<^verbatim>\<open>errno\<close>; with that value still there, a
  call on the text \<open>42\<close> returns the default in a release build and stops at the
  assertion in a build with assertions, while the same call with \<^verbatim>\<open>errno\<close> clear
  returns 42.
\<close>

theorem ExtractFromNumericOrString_stale_errno:
  "ExtractFromNumericOrString release_llp64 [(''k'', JString ''99999999999999'')] ''k'' (D_int32 0) 0
     = (Inr (D_int32 0), ERANGE) \<and>
   ExtractFromNumericOrString release_llp64 [(''k'', JString ''42'')] ''k'' (D_int32 0) ERANGE
     = (Inr (D_int32 0), ERANGE) \<and>
   ExtractFromNumericOrString debug_llp64 [(''k'', JString ''42'')] ''k'' (D_int32 0) ERANGE
     = (Inl AssertionFailed, ERANGE) \<and>
   ExtractFromNumericOrString release_llp64 [(''k'', JString ''42'')] ''k'' (D_int32 0) 0
     = (Inr (D_int32 42), 0)"
  by (simp add: ExtractFromNumericOrString_def HasMember_def member_value_def checked_return_def
      parser_defs example_defs ERANGE_def)


section \<open>CastKeepingBits keeps the bits\<close>


lemma signed_take_bit_take_bit_pred:
  "0 < w \<Longrightarrow> signed_take_bit (w - 1) (take_bit w (b::int)) = signed_take_bit (w - 1) b"
  by (cases w) (simp_all add: signed_take_bit_take_bit)







end
